theory Spec2Isabelle
  imports Main "HOL-Library.Word"
begin

section \<open>The constants of \<open>rollup::proofs::notes\<close> (constants.hpp)\<close>

subsection \<open>Field widths\<close>

text \<open>
  \<^verbatim>\<open>constexpr size_t NOTE_VALUE_BIT_LENGTH = 252;\<close>
  \<open>size_t\<close> is taken as the 64-bit unsigned type of the native build.
\<close>

definition NOTE_VALUE_BIT_LENGTH :: "64 word" where
  "NOTE_VALUE_BIT_LENGTH = 252"

text \<open>The five \<^verbatim>\<open>constexpr uint32_t DEFI_BRIDGE_...\<close> constants.\<close>

definition DEFI_BRIDGE_ADDRESS_BIT_LENGTH :: "32 word" where
  "DEFI_BRIDGE_ADDRESS_BIT_LENGTH = 160"

definition DEFI_BRIDGE_NUM_OUTPUT_NOTES_LEN :: "32 word" where
  "DEFI_BRIDGE_NUM_OUTPUT_NOTES_LEN = 2"

definition DEFI_BRIDGE_INPUT_ASSET_ID_LEN :: "32 word" where
  "DEFI_BRIDGE_INPUT_ASSET_ID_LEN = 32"

definition DEFI_BRIDGE_OUTPUT_A_ASSET_ID_LEN :: "32 word" where
  "DEFI_BRIDGE_OUTPUT_A_ASSET_ID_LEN = 32"

definition DEFI_BRIDGE_OUTPUT_B_ASSET_ID_LEN :: "32 word" where
  "DEFI_BRIDGE_OUTPUT_B_ASSET_ID_LEN = 26"

subsection \<open>The enumeration \<open>GeneratorIndex\<close>\<close>

text \<open>The twenty enumerators, in declaration order.\<close>

datatype GeneratorIndex =
    JOIN_SPLIT_NULLIFIER_HASH_INPUTS
  | ACCOUNT_NOTE_HASH_INPUTS
  | ACCOUNT_ALIAS_ID_NULLIFIER
  | ACCOUNT_GIBBERISH_NULLIFIER
  | JOIN_SPLIT_NOTE_OWNER
  | JOIN_SPLIT_CLAIM_NOTE_PARTIAL_STATE
  | JOIN_SPLIT_NOTE_VALUE
  | JOIN_SPLIT_NOTE_SECRET
  | JOIN_SPLIT_NOTE_ASSET_ID
  | JOIN_SPLIT_NOTE_NONCE
  | JOIN_SPLIT_NULLIFIER_ACCOUNT_PRIVATE_KEY
  | JOIN_SPLIT_CLAIM_NOTE_VALUE
  | JOIN_SPLIT_CLAIM_NOTE_BRIDGE_ID
  | JOIN_SPLIT_CLAIM_NOTE_DEFI_INTERACTION_NONCE
  | DEFI_INTERACTION_NOTE_TOTAL_INPUT_VALUE
  | DEFI_INTERACTION_NOTE_BRIDGE_ID
  | DEFI_INTERACTION_NOTE_TOTAL_OUTPUT_A_VALUE
  | DEFI_INTERACTION_NOTE_TOTAL_OUTPUT_B_VALUE
  | DEFI_INTERACTION_NOTE_INTERACTION_NONCE
  | DEFI_INTERACTION_NOTE_INTERACTION_RESULT

text \<open>
  The enumerator list as the header writes it: each enumerator with its initialiser,
  \<open>None\<close> where the source gives none.
\<close>

definition GeneratorIndex_decl :: "(GeneratorIndex \<times> nat option) list" where
  "GeneratorIndex_decl =
    [(JOIN_SPLIT_NULLIFIER_HASH_INPUTS, None),
     (ACCOUNT_NOTE_HASH_INPUTS, Some 4),
     (ACCOUNT_ALIAS_ID_NULLIFIER, Some 7),
     (ACCOUNT_GIBBERISH_NULLIFIER, Some 11),
     (JOIN_SPLIT_NOTE_OWNER, Some 13),
     (JOIN_SPLIT_CLAIM_NOTE_PARTIAL_STATE, Some 15),
     (JOIN_SPLIT_NOTE_VALUE, Some 34),
     (JOIN_SPLIT_NOTE_SECRET, None),
     (JOIN_SPLIT_NOTE_ASSET_ID, None),
     (JOIN_SPLIT_NOTE_NONCE, None),
     (JOIN_SPLIT_NULLIFIER_ACCOUNT_PRIVATE_KEY, None),
     (JOIN_SPLIT_CLAIM_NOTE_VALUE, None),
     (JOIN_SPLIT_CLAIM_NOTE_BRIDGE_ID, None),
     (JOIN_SPLIT_CLAIM_NOTE_DEFI_INTERACTION_NONCE, None),
     (DEFI_INTERACTION_NOTE_TOTAL_INPUT_VALUE, None),
     (DEFI_INTERACTION_NOTE_BRIDGE_ID, None),
     (DEFI_INTERACTION_NOTE_TOTAL_OUTPUT_A_VALUE, None),
     (DEFI_INTERACTION_NOTE_TOTAL_OUTPUT_B_VALUE, None),
     (DEFI_INTERACTION_NOTE_INTERACTION_NONCE, None),
     (DEFI_INTERACTION_NOTE_INTERACTION_RESULT, None)]"

text \<open>
  The C++ rule for enumerator values: an enumerator with an initialiser takes that value;
  one without takes the value of the previous enumerator plus one, and zero when it is
  the first. \<open>nxt\<close> is the value the next enumerator without initialiser receives.
\<close>

fun enum_values :: "nat \<Rightarrow> ('a \<times> nat option) list \<Rightarrow> ('a \<times> nat) list" where
  "enum_values nxt [] = []"
| "enum_values nxt ((e, None) # ds) = (e, nxt) # enum_values (nxt + 1) ds"
| "enum_values nxt ((e, Some v) # ds) = (e, v) # enum_values (v + 1) ds"

definition GeneratorIndex_values :: "(GeneratorIndex \<times> nat) list" where
  "GeneratorIndex_values = enum_values 0 GeneratorIndex_decl"

text \<open>The integer an enumerator converts to.\<close>

definition index :: "GeneratorIndex \<Rightarrow> nat" where
  "index P = the (map_of GeneratorIndex_values P)"

subsection \<open>Arity and generator ranges\<close>

text \<open>
  The comments beside the first six enumerators, as data: the hash mode, the number of
  inputs where the comment states one, and the first and last generator it names
  (\<^verbatim>\<open>// encrypt. 4 inputs. 0-7.\<close>). The other enumerators carry no comment.
\<close>

datatype hash_mode = encrypt | compress | compress_to_point

fun source_comment :: "GeneratorIndex \<Rightarrow> (hash_mode \<times> nat option \<times> nat \<times> nat) option" where
  "source_comment JOIN_SPLIT_NULLIFIER_HASH_INPUTS = Some (encrypt, Some 4, 0, 7)"
| "source_comment ACCOUNT_NOTE_HASH_INPUTS = Some (encrypt, Some 3, 8, 13)"
| "source_comment ACCOUNT_ALIAS_ID_NULLIFIER = Some (compress, Some 4, 14, 21)"
| "source_comment ACCOUNT_GIBBERISH_NULLIFIER = Some (compress, Some 2, 22, 25)"
| "source_comment JOIN_SPLIT_NOTE_OWNER = Some (compress_to_point, None, 26, 29)"
| "source_comment JOIN_SPLIT_CLAIM_NOTE_PARTIAL_STATE = Some (compress_to_point, None, 30, 33)"
| "source_comment _ = None"

text \<open>
  Modelled from the spec: the arity of a purpose. The header declares no arity table;
  the registry of the specification records 4, 3, 4, 2, 2, 2 for the six purposes at
  0, 4, 7, 11, 13, 15 and 1 for every purpose from \<open>JOIN_SPLIT_NOTE_VALUE\<close> on. Where a
  comment of the header states a number of inputs, it is this number; the comments of
  the two \<open>compress_to_point\<close> purposes name four curve points each, as the comment of
  the purpose with 2 inputs does.
\<close>

fun arity :: "GeneratorIndex \<Rightarrow> nat" where
  "arity JOIN_SPLIT_NULLIFIER_HASH_INPUTS = 4"
| "arity ACCOUNT_NOTE_HASH_INPUTS = 3"
| "arity ACCOUNT_ALIAS_ID_NULLIFIER = 4"
| "arity ACCOUNT_GIBBERISH_NULLIFIER = 2"
| "arity JOIN_SPLIT_NOTE_OWNER = 2"
| "arity JOIN_SPLIT_CLAIM_NOTE_PARTIAL_STATE = 2"
| "arity _ = 1"

text \<open>
  Modelled from the spec: the registry lookup, which returns the index of a purpose and
  its arity, and the range \<open>[index, index + arity)\<close> the purpose owns, as a set and as
  the list of its members.
\<close>

definition lookup :: "GeneratorIndex \<Rightarrow> nat \<times> nat" where
  "lookup P = (index P, arity P)"

definition range_of :: "GeneratorIndex \<Rightarrow> nat set" where
  "range_of P = {index P ..< index P + arity P}"

definition generators :: "GeneratorIndex \<Rightarrow> nat list" where
  "generators P = [index P ..< index P + arity P]"

text \<open>
  Modelled from the spec: the full table, one row \<open>(purpose, start, arity)\<close> for each
  enumerator in declaration order, and the static overlap check over it, which lists
  every pair of rows whose ranges share a generator.
\<close>

definition registry :: "(GeneratorIndex \<times> nat \<times> nat) list" where
  "registry = map (\<lambda>(P, i). (P, i, arity P)) GeneratorIndex_values"

fun overlaps :: "nat \<times> nat \<Rightarrow> nat \<times> nat \<Rightarrow> bool" where
  "overlaps (s1, a1) (s2, a2) = (s1 < s2 + a2 \<and> s2 < s1 + a1)"

fun collisions :: "('p \<times> nat \<times> nat) list \<Rightarrow> ('p \<times> 'p) list" where
  "collisions [] = []"
| "collisions ((P, r) # rows) =
     map (\<lambda>(Q, r'). (P, Q)) (filter (\<lambda>(Q, r'). overlaps r r') rows) @ collisions rows"

subsection \<open>Width validation\<close>

text \<open>
  Modelled from the spec: the number of bits an unsigned integer requires, 0 for 0,
  1 for 1, 2 for 2 and 3. Values are unsigned throughout.
\<close>

fun bit_length :: "nat \<Rightarrow> nat" where
  "bit_length n = (if n = 0 then 0 else Suc (bit_length (n div 2)))"

declare bit_length.simps [simp del]

datatype error = InvalidInput

text \<open>
  Modelled from the spec: width validation. The header holds the widths only; the
  specification has a value that requires more bits than the width allots rejected with
  an invalid-input error, and any other value accepted as it is.
\<close>

definition validate_width :: "nat \<Rightarrow> nat \<Rightarrow> error + nat" where
  "validate_width w v = (if bit_length v \<le> w then Inr v else Inl InvalidInput)"

definition validate_note_value :: "nat \<Rightarrow> error + nat" where
  "validate_note_value v = validate_width (unat NOTE_VALUE_BIT_LENGTH) v"

text \<open>
  Modelled from the spec: the bit-length of the scalar field, which is declared outside
  this header; the specification gives it as about 254 bits, and 254 is taken.
\<close>

definition SCALAR_FIELD_BIT_LENGTH :: nat where
  "SCALAR_FIELD_BIT_LENGTH = 254"

subsection \<open>The packed DeFi bridge record\<close>

text \<open>
  Modelled from the spec: the packing of narrow fields into one integer. The header
  holds the widths only. A layout is the list of field widths; the fields are laid out
  in the order of the list, the first in the least significant bits, each directly above
  the one before.
\<close>

fun pack :: "(nat \<times> nat) list \<Rightarrow> nat" where
  "pack [] = 0"
| "pack ((w, v) # fs) = v + 2 ^ w * pack fs"

fun unpack :: "nat list \<Rightarrow> nat \<Rightarrow> nat list" where
  "unpack [] x = []"
| "unpack (w # ws) x = x mod 2 ^ w # unpack ws (x div 2 ^ w)"

definition packed_width :: "nat list \<Rightarrow> nat" where
  "packed_width ws = sum_list ws"

text \<open>
  Modelled from the spec: the DeFi bridge record, its five fields in the order the
  specification lists them, the layout made of the five width constants of the header in
  that order, the fields being within their widths, and the encoding and decoding of a
  record by that layout.
\<close>

record bridge_id =
  bridge_address :: nat
  num_output_notes :: nat
  input_asset_id :: nat
  output_asset_id_a :: nat
  output_asset_id_b :: nat

definition DEFI_BRIDGE_LAYOUT :: "nat list" where
  "DEFI_BRIDGE_LAYOUT =
    [unat DEFI_BRIDGE_ADDRESS_BIT_LENGTH,
     unat DEFI_BRIDGE_NUM_OUTPUT_NOTES_LEN,
     unat DEFI_BRIDGE_INPUT_ASSET_ID_LEN,
     unat DEFI_BRIDGE_OUTPUT_A_ASSET_ID_LEN,
     unat DEFI_BRIDGE_OUTPUT_B_ASSET_ID_LEN]"

definition bridge_fields :: "bridge_id \<Rightarrow> nat list" where
  "bridge_fields b =
    [bridge_address b, num_output_notes b, input_asset_id b,
     output_asset_id_a b, output_asset_id_b b]"

definition in_range :: "bridge_id \<Rightarrow> bool" where
  "in_range b =
    (bridge_address b < 2 ^ unat DEFI_BRIDGE_ADDRESS_BIT_LENGTH
     \<and> num_output_notes b < 2 ^ unat DEFI_BRIDGE_NUM_OUTPUT_NOTES_LEN
     \<and> input_asset_id b < 2 ^ unat DEFI_BRIDGE_INPUT_ASSET_ID_LEN
     \<and> output_asset_id_a b < 2 ^ unat DEFI_BRIDGE_OUTPUT_A_ASSET_ID_LEN
     \<and> output_asset_id_b b < 2 ^ unat DEFI_BRIDGE_OUTPUT_B_ASSET_ID_LEN)"

definition encode :: "bridge_id \<Rightarrow> nat" where
  "encode b = pack (zip DEFI_BRIDGE_LAYOUT (bridge_fields b))"

definition decode :: "nat \<Rightarrow> bridge_id option" where
  "decode x =
    (case unpack DEFI_BRIDGE_LAYOUT x of
       [a, n, i, oa, ob] \<Rightarrow>
         Some \<lparr>bridge_address = a, num_output_notes = n, input_asset_id = i,
               output_asset_id_a = oa, output_asset_id_b = ob\<rparr>
     | _ \<Rightarrow> None)"

section \<open>Evaluating the tables\<close>

lemma GeneratorIndex_values_eval:
  "GeneratorIndex_values =
    [(JOIN_SPLIT_NULLIFIER_HASH_INPUTS, 0),
     (ACCOUNT_NOTE_HASH_INPUTS, 4),
     (ACCOUNT_ALIAS_ID_NULLIFIER, 7),
     (ACCOUNT_GIBBERISH_NULLIFIER, 11),
     (JOIN_SPLIT_NOTE_OWNER, 13),
     (JOIN_SPLIT_CLAIM_NOTE_PARTIAL_STATE, 15),
     (JOIN_SPLIT_NOTE_VALUE, 34),
     (JOIN_SPLIT_NOTE_SECRET, 35),
     (JOIN_SPLIT_NOTE_ASSET_ID, 36),
     (JOIN_SPLIT_NOTE_NONCE, 37),
     (JOIN_SPLIT_NULLIFIER_ACCOUNT_PRIVATE_KEY, 38),
     (JOIN_SPLIT_CLAIM_NOTE_VALUE, 39),
     (JOIN_SPLIT_CLAIM_NOTE_BRIDGE_ID, 40),
     (JOIN_SPLIT_CLAIM_NOTE_DEFI_INTERACTION_NONCE, 41),
     (DEFI_INTERACTION_NOTE_TOTAL_INPUT_VALUE, 42),
     (DEFI_INTERACTION_NOTE_BRIDGE_ID, 43),
     (DEFI_INTERACTION_NOTE_TOTAL_OUTPUT_A_VALUE, 44),
     (DEFI_INTERACTION_NOTE_TOTAL_OUTPUT_B_VALUE, 45),
     (DEFI_INTERACTION_NOTE_INTERACTION_NONCE, 46),
     (DEFI_INTERACTION_NOTE_INTERACTION_RESULT, 47)]"
  by (simp add: GeneratorIndex_values_def GeneratorIndex_decl_def)

lemma index_simps:
  "index JOIN_SPLIT_NULLIFIER_HASH_INPUTS = 0"
  "index ACCOUNT_NOTE_HASH_INPUTS = 4"
  "index ACCOUNT_ALIAS_ID_NULLIFIER = 7"
  "index ACCOUNT_GIBBERISH_NULLIFIER = 11"
  "index JOIN_SPLIT_NOTE_OWNER = 13"
  "index JOIN_SPLIT_CLAIM_NOTE_PARTIAL_STATE = 15"
  "index JOIN_SPLIT_NOTE_VALUE = 34"
  "index JOIN_SPLIT_NOTE_SECRET = 35"
  "index JOIN_SPLIT_NOTE_ASSET_ID = 36"
  "index JOIN_SPLIT_NOTE_NONCE = 37"
  "index JOIN_SPLIT_NULLIFIER_ACCOUNT_PRIVATE_KEY = 38"
  "index JOIN_SPLIT_CLAIM_NOTE_VALUE = 39"
  "index JOIN_SPLIT_CLAIM_NOTE_BRIDGE_ID = 40"
  "index JOIN_SPLIT_CLAIM_NOTE_DEFI_INTERACTION_NONCE = 41"
  "index DEFI_INTERACTION_NOTE_TOTAL_INPUT_VALUE = 42"
  "index DEFI_INTERACTION_NOTE_BRIDGE_ID = 43"
  "index DEFI_INTERACTION_NOTE_TOTAL_OUTPUT_A_VALUE = 44"
  "index DEFI_INTERACTION_NOTE_TOTAL_OUTPUT_B_VALUE = 45"
  "index DEFI_INTERACTION_NOTE_INTERACTION_NONCE = 46"
  "index DEFI_INTERACTION_NOTE_INTERACTION_RESULT = 47"
  by (simp_all add: index_def GeneratorIndex_values_eval)

lemma index_defined: "map_of GeneratorIndex_values P \<noteq> None"
  by (cases P) (simp_all add: GeneratorIndex_values_eval)

lemma registry_eval:
  "registry =
    [(JOIN_SPLIT_NULLIFIER_HASH_INPUTS, 0, 4),
     (ACCOUNT_NOTE_HASH_INPUTS, 4, 3),
     (ACCOUNT_ALIAS_ID_NULLIFIER, 7, 4),
     (ACCOUNT_GIBBERISH_NULLIFIER, 11, 2),
     (JOIN_SPLIT_NOTE_OWNER, 13, 2),
     (JOIN_SPLIT_CLAIM_NOTE_PARTIAL_STATE, 15, 2),
     (JOIN_SPLIT_NOTE_VALUE, 34, 1),
     (JOIN_SPLIT_NOTE_SECRET, 35, 1),
     (JOIN_SPLIT_NOTE_ASSET_ID, 36, 1),
     (JOIN_SPLIT_NOTE_NONCE, 37, 1),
     (JOIN_SPLIT_NULLIFIER_ACCOUNT_PRIVATE_KEY, 38, 1),
     (JOIN_SPLIT_CLAIM_NOTE_VALUE, 39, 1),
     (JOIN_SPLIT_CLAIM_NOTE_BRIDGE_ID, 40, 1),
     (JOIN_SPLIT_CLAIM_NOTE_DEFI_INTERACTION_NONCE, 41, 1),
     (DEFI_INTERACTION_NOTE_TOTAL_INPUT_VALUE, 42, 1),
     (DEFI_INTERACTION_NOTE_BRIDGE_ID, 43, 1),
     (DEFI_INTERACTION_NOTE_TOTAL_OUTPUT_A_VALUE, 44, 1),
     (DEFI_INTERACTION_NOTE_TOTAL_OUTPUT_B_VALUE, 45, 1),
     (DEFI_INTERACTION_NOTE_INTERACTION_NONCE, 46, 1),
     (DEFI_INTERACTION_NOTE_INTERACTION_RESULT, 47, 1)]"
  by (simp add: registry_def GeneratorIndex_values_eval)

text \<open>
  The comments of the header agree with the arities: a comment that states a number of
  inputs states the arity, and the generators a comment names are two for each unit of
  arity, beginning at twice the index. The ranges of the specification count in units
  of the index; the comments count in curve points.
\<close>

lemma source_comment_consistent:
  "source_comment P = Some (m, n, lo, hi) \<Longrightarrow>
   lo = 2 * index P \<and> Suc hi = 2 * (index P + arity P) \<and> (\<forall>k. n = Some k \<longrightarrow> k = arity P)"
  by (cases P) (auto simp: index_simps)

section \<open>The overlap check\<close>

text \<open>
  Two rows overlap exactly when their ranges share a member, and the check returns the
  empty list exactly when no row overlaps a later one.
\<close>

lemma overlaps_iff:
  "0 < a1 \<Longrightarrow> 0 < a2 \<Longrightarrow>
   overlaps (s1, a1) (s2, a2) \<longleftrightarrow> {s1 ..< s1 + a1} \<inter> {s2 ..< s2 + a2} \<noteq> {}"
proof
  assume pos: "0 < a1" "0 < a2" and ov: "overlaps (s1, a1) (s2, a2)"
  then have "max s1 s2 \<in> {s1 ..< s1 + a1} \<inter> {s2 ..< s2 + a2}"
    by auto
  then show "{s1 ..< s1 + a1} \<inter> {s2 ..< s2 + a2} \<noteq> {}"
    by blast
next
  assume "{s1 ..< s1 + a1} \<inter> {s2 ..< s2 + a2} \<noteq> {}"
  then obtain x where "x \<in> {s1 ..< s1 + a1}" and "x \<in> {s2 ..< s2 + a2}"
    by blast
  then show "overlaps (s1, a1) (s2, a2)"
    by simp
qed

lemma collisions_empty_iff:
  "collisions rows = [] \<longleftrightarrow> sorted_wrt (\<lambda>(P, r) (Q, r'). \<not> overlaps r r') rows"
proof (induction rows)
  case Nil
  show ?case by simp
next
  case (Cons row rows)
  obtain P r where row: "row = (P, r)" by (cases row)
  show ?case
    using Cons.IH by (auto simp: row filter_empty_conv)
qed

lemma collisions_detects: "collisions [(a, 0, 4), (b, 3, 2), (c, 5, 1)] = [(a, b)]"
  by simp

section \<open>Bit lengths\<close>

lemma bit_length_le_iff: "bit_length n \<le> k \<longleftrightarrow> n < 2 ^ k"
proof (induction n arbitrary: k rule: bit_length.induct)
  case (1 n)
  show ?case
  proof (cases "n = 0")
    case True
    then show ?thesis by (simp add: bit_length.simps)
  next
    case False
    show ?thesis
    proof (cases k)
      case 0
      with False show ?thesis by (simp add: bit_length.simps [of n])
    next
      case (Suc j)
      have "bit_length n \<le> Suc j \<longleftrightarrow> bit_length (n div 2) \<le> j"
        using False by (simp add: bit_length.simps [of n])
      also have "\<dots> \<longleftrightarrow> n div 2 < 2 ^ j"
        using 1 False by simp
      also have "\<dots> \<longleftrightarrow> n < 2 ^ Suc j"
        by auto
      finally show ?thesis using Suc by simp
    qed
  qed
qed

lemma bit_length_eq_iff: "bit_length n = Suc k \<longleftrightarrow> 2 ^ k \<le> n \<and> n < 2 ^ Suc k"
proof -
  have "bit_length n = Suc k \<longleftrightarrow> bit_length n \<le> Suc k \<and> \<not> bit_length n \<le> k"
    by auto
  then show ?thesis
    unfolding bit_length_le_iff by auto
qed

lemma bit_length_ge_iff: "Suc k \<le> bit_length n \<longleftrightarrow> 2 ^ k \<le> n"
  using bit_length_le_iff [of n k] by auto

lemma bit_length_ge_253: "253 \<le> bit_length v \<longleftrightarrow> 2 ^ 252 \<le> v"
  using bit_length_ge_iff [of 252 v] by simp

lemma bit_length_254: "bit_length p = 254 \<longleftrightarrow> 2 ^ 253 \<le> p \<and> p < 2 ^ 254"
  using bit_length_eq_iff [of p 253] by simp

lemma NOTE_VALUE_BIT_LENGTH_unat: "unat NOTE_VALUE_BIT_LENGTH = 252"
  by (simp add: NOTE_VALUE_BIT_LENGTH_def)

section \<open>Packing\<close>

lemma pack_bound:
  "\<forall>(w, v) \<in> set fs. v < 2 ^ w \<Longrightarrow> pack fs < 2 ^ sum_list (map fst fs)"
proof (induction fs)
  case Nil
  then show ?case by simp
next
  case (Cons f fs)
  obtain w v where f: "f = (w, v)" by (cases f)
  from Cons.prems f have v: "v < 2 ^ w" and rest: "\<forall>(w, v) \<in> set fs. v < 2 ^ w"
    by auto
  let ?n = "sum_list (map fst fs)"
  from Cons.IH [OF rest] have "pack fs + 1 \<le> 2 ^ ?n" by simp
  then have "2 ^ w * (pack fs + 1) \<le> 2 ^ w * 2 ^ ?n"
    by (rule mult_le_mono2)
  then have "2 ^ w * pack fs + 2 ^ w \<le> (2::nat) ^ (w + ?n)"
    by (simp add: power_add algebra_simps)
  with v show ?case by (simp add: f)
qed

lemma unpack_pack:
  "\<forall>(w, v) \<in> set fs. v < 2 ^ w \<Longrightarrow> unpack (map fst fs) (pack fs) = map snd fs"
proof (induction fs)
  case Nil
  then show ?case by simp
next
  case (Cons f fs)
  obtain w v where f: "f = (w, v)" by (cases f)
  from Cons.prems f have v: "v < 2 ^ w" and rest: "\<forall>(w, v) \<in> set fs. v < 2 ^ w"
    by auto
  from v have "(v + 2 ^ w * pack fs) mod 2 ^ w = v" by simp
  moreover from v have "(v + 2 ^ w * pack fs) div 2 ^ w = pack fs" by simp
  ultimately show ?case using Cons.IH [OF rest] by (simp add: f)
qed

lemma DEFI_BRIDGE_LAYOUT_eval: "DEFI_BRIDGE_LAYOUT = [160, 2, 32, 32, 26]"
  by (simp add: DEFI_BRIDGE_LAYOUT_def DEFI_BRIDGE_ADDRESS_BIT_LENGTH_def
      DEFI_BRIDGE_NUM_OUTPUT_NOTES_LEN_def DEFI_BRIDGE_INPUT_ASSET_ID_LEN_def
      DEFI_BRIDGE_OUTPUT_A_ASSET_ID_LEN_def DEFI_BRIDGE_OUTPUT_B_ASSET_ID_LEN_def)

lemma in_range_fields:
  "in_range b \<longleftrightarrow> (\<forall>(w, v) \<in> set (zip DEFI_BRIDGE_LAYOUT (bridge_fields b)). v < 2 ^ w)"
  by (simp add: in_range_def DEFI_BRIDGE_LAYOUT_def bridge_fields_def)

lemma zip_layout_fst: "map fst (zip DEFI_BRIDGE_LAYOUT (bridge_fields b)) = DEFI_BRIDGE_LAYOUT"
  by (simp add: DEFI_BRIDGE_LAYOUT_def bridge_fields_def)

lemma zip_layout_snd: "map snd (zip DEFI_BRIDGE_LAYOUT (bridge_fields b)) = bridge_fields b"
  by (simp add: DEFI_BRIDGE_LAYOUT_def bridge_fields_def)

lemma encode_bound: "in_range b \<Longrightarrow> encode b < 2 ^ packed_width DEFI_BRIDGE_LAYOUT"
  using pack_bound [of "zip DEFI_BRIDGE_LAYOUT (bridge_fields b)"]
  by (simp add: in_range_fields encode_def packed_width_def zip_layout_fst)

lemma unpack_encode: "in_range b \<Longrightarrow> unpack DEFI_BRIDGE_LAYOUT (encode b) = bridge_fields b"
  using unpack_pack [of "zip DEFI_BRIDGE_LAYOUT (bridge_fields b)"]
  by (simp add: in_range_fields encode_def zip_layout_fst zip_layout_snd)

section \<open>The generator index registry\<close>

text \<open>
  C1. The ranges \<open>[index, index + arity)\<close> of two distinct purposes do not intersect.
  The rows of the registry are \<open>(0, 4)\<close>, \<open>(4, 3)\<close>, \<open>(7, 4)\<close>, \<open>(11, 2)\<close>, \<open>(13, 2)\<close>,
  \<open>(15, 2)\<close> and \<open>(i, 1)\<close> for each of the fourteen indices from 34 to 47.
\<close>

theorem generator_ranges_disjoint:
  "map snd registry =
     [(0, 4), (4, 3), (7, 4), (11, 2), (13, 2), (15, 2)] @ map (\<lambda>i. (i, 1)) [34 ..< 48]
   \<and> (P1 \<noteq> P2 \<longrightarrow> range_of P1 \<inter> range_of P2 = {})"
proof -
  have upt: "[34 ..< 48] = [34, 35, 36, 37, 38, 39, 40, 41, 42, 43, 44, 45, 46, 47::nat]"
    by (simp add: upt_rec)
  have rows: "map snd registry =
     [(0, 4), (4, 3), (7, 4), (11, 2), (13, 2), (15, 2)] @ map (\<lambda>i. (i, 1)) [34 ..< 48]"
    unfolding upt by (simp add: registry_eval)
  have disj: "range_of P1 \<inter> range_of P2 = {}" if "P1 \<noteq> P2"
    using that by (cases P1; cases P2; simp add: range_of_def index_simps)
  from rows disj show ?thesis by blast
qed

theorem generator_ranges_disjoint_witness:
  "ACCOUNT_NOTE_HASH_INPUTS \<noteq> ACCOUNT_ALIAS_ID_NULLIFIER
   \<and> range_of ACCOUNT_NOTE_HASH_INPUTS \<inter> range_of ACCOUNT_ALIAS_ID_NULLIFIER = {}"
  using generator_ranges_disjoint [of ACCOUNT_NOTE_HASH_INPUTS ACCOUNT_ALIAS_ID_NULLIFIER]
  by simp

text \<open>
  C2. The lookup of \<open>ACCOUNT_NOTE_HASH_INPUTS\<close> returns index 4 and arity 3, its range
  being 4, 5, 6; the lookup of \<open>ACCOUNT_ALIAS_ID_NULLIFIER\<close> returns index 7 and arity 4,
  its range being 7, 8, 9, 10; and the overlap check over the full table, which has a
  row for every enumerator, finds no collision.
\<close>

theorem registry_lookup_example:
  "lookup ACCOUNT_NOTE_HASH_INPUTS = (4, 3)
   \<and> generators ACCOUNT_NOTE_HASH_INPUTS = [4, 5, 6]
   \<and> lookup ACCOUNT_ALIAS_ID_NULLIFIER = (7, 4)
   \<and> generators ACCOUNT_ALIAS_ID_NULLIFIER = [7, 8, 9, 10]
   \<and> map fst registry = map fst GeneratorIndex_decl
   \<and> collisions registry = []
   \<and> length (collisions registry) = 0"
proof -
  have l1: "lookup ACCOUNT_NOTE_HASH_INPUTS = (4, 3)"
    by (simp add: lookup_def index_simps)
  have l2: "lookup ACCOUNT_ALIAS_ID_NULLIFIER = (7, 4)"
    by (simp add: lookup_def index_simps)
  have g1: "generators ACCOUNT_NOTE_HASH_INPUTS = [4, 5, 6]"
    by (simp add: generators_def index_simps upt_rec)
  have g2: "generators ACCOUNT_ALIAS_ID_NULLIFIER = [7, 8, 9, 10]"
    by (simp add: generators_def index_simps upt_rec)
  have full: "map fst registry = map fst GeneratorIndex_decl"
    by (simp add: registry_eval GeneratorIndex_decl_def)
  have none: "collisions registry = []"
    by (simp add: registry_eval)
  from l1 l2 g1 g2 full none show ?thesis by simp
qed

text \<open>
  C8. The arity of every purpose is at least 1.
\<close>

theorem arity_at_least_one: "1 \<le> arity P"
  by (cases P) simp_all

text \<open>
  C10. The twenty enumerators, read in declaration order, have the values
  0, 4, 7, 11, 13, 15 and then 34 up to 47 without a gap: the first has no initialiser
  and is 0 by the default of the language, the initialisers are 4, 7, 11, 13, 15 and 34,
  and the thirteen enumerators after \<open>JOIN_SPLIT_NOTE_VALUE\<close> count on from 34,
  \<open>JOIN_SPLIT_NOTE_SECRET\<close> being 35 and \<open>DEFI_INTERACTION_NOTE_INTERACTION_RESULT\<close> 47.
  The values are pairwise distinct and strictly increasing in declaration order.
\<close>

theorem GeneratorIndex_values_strictly_increasing:
  "map fst GeneratorIndex_values = map fst GeneratorIndex_decl
   \<and> snd (hd GeneratorIndex_decl) = None
   \<and> List.map_filter snd GeneratorIndex_decl = [4, 7, 11, 13, 15, 34]
   \<and> map snd GeneratorIndex_values = [0, 4, 7, 11, 13, 15] @ [34 ..< 48]
   \<and> length GeneratorIndex_values = 20
   \<and> index JOIN_SPLIT_NULLIFIER_HASH_INPUTS = 0
   \<and> index JOIN_SPLIT_NOTE_VALUE = 34
   \<and> index JOIN_SPLIT_NOTE_SECRET = 35
   \<and> index DEFI_INTERACTION_NOTE_INTERACTION_RESULT = 47
   \<and> distinct (map snd GeneratorIndex_values)
   \<and> sorted_wrt (<) (map snd GeneratorIndex_values)"
proof -
  have names: "map fst GeneratorIndex_values = map fst GeneratorIndex_decl"
    by (simp add: GeneratorIndex_values_eval GeneratorIndex_decl_def)
  have first: "snd (hd GeneratorIndex_decl) = None"
    by (simp add: GeneratorIndex_decl_def)
  have inits: "List.map_filter snd GeneratorIndex_decl = [4, 7, 11, 13, 15, 34]"
    by (simp add: GeneratorIndex_decl_def List.map_filter_simps)
  have upt: "[34 ..< 48] = [34, 35, 36, 37, 38, 39, 40, 41, 42, 43, 44, 45, 46, 47::nat]"
    by (simp add: upt_rec)
  have vals: "map snd GeneratorIndex_values = [0, 4, 7, 11, 13, 15] @ [34 ..< 48]"
    unfolding upt by (simp add: GeneratorIndex_values_eval)
  have len: "length GeneratorIndex_values = 20"
    by (simp add: GeneratorIndex_values_eval)
  have incr: "sorted_wrt (<) (map snd GeneratorIndex_values)"
    by (simp add: GeneratorIndex_values_eval)
  have dist: "distinct (map snd GeneratorIndex_values)"
    by (simp add: GeneratorIndex_values_eval)
  from names first inits vals len incr dist show ?thesis
    by (simp only: index_simps simp_thms)
qed

section \<open>The field width registry\<close>

text \<open>
  C3. \<open>NOTE_VALUE_BIT_LENGTH\<close> is 252, which is less than the bit-length of the scalar
  field. The margin is headroom for arithmetic: in a field whose modulus has that
  bit-length, the sum of two values of at most 252 bits is not reduced.
\<close>

theorem note_value_width_below_field:
  "NOTE_VALUE_BIT_LENGTH = 252
   \<and> unat NOTE_VALUE_BIT_LENGTH < SCALAR_FIELD_BIT_LENGTH
   \<and> (bit_length p = SCALAR_FIELD_BIT_LENGTH \<longrightarrow>
        bit_length a \<le> unat NOTE_VALUE_BIT_LENGTH \<longrightarrow>
        bit_length b \<le> unat NOTE_VALUE_BIT_LENGTH \<longrightarrow> (a + b) mod p = a + b)"
proof -
  have "(a + b) mod p = a + b"
    if p: "bit_length p = 254" and a: "a < 2 ^ 252" and b: "b < 2 ^ 252"
  proof -
    from p have "2 ^ 253 \<le> p" by (simp add: bit_length_254)
    moreover from a b have "a + b < 2 ^ 253" by simp
    ultimately show ?thesis by simp
  qed
  then show ?thesis
    by (simp add: NOTE_VALUE_BIT_LENGTH_unat SCALAR_FIELD_BIT_LENGTH_def bit_length_le_iff)
      (simp add: NOTE_VALUE_BIT_LENGTH_def)
qed

theorem note_value_width_below_field_witness:
  "bit_length 21888242871839275222246405745257275088548364400416034343698204186575808495617
     = SCALAR_FIELD_BIT_LENGTH
   \<and> bit_length (2 ^ 252 - 1) \<le> unat NOTE_VALUE_BIT_LENGTH
   \<and> ((2 ^ 252 - 1) + (2 ^ 252 - 1))
       mod 21888242871839275222246405745257275088548364400416034343698204186575808495617
     = (2 ^ 252 - 1) + (2 ^ 252 - 1 :: nat)"
proof -
  have h1: "bit_length 21888242871839275222246405745257275088548364400416034343698204186575808495617
     = SCALAR_FIELD_BIT_LENGTH"
    by (simp add: SCALAR_FIELD_BIT_LENGTH_def bit_length_254)
  have h2: "bit_length (2 ^ 252 - 1) \<le> unat NOTE_VALUE_BIT_LENGTH"
    by (simp add: NOTE_VALUE_BIT_LENGTH_unat bit_length_le_iff)
  from h1 h2 note_value_width_below_field
    [of 21888242871839275222246405745257275088548364400416034343698204186575808495617
        "2 ^ 252 - 1" "2 ^ 252 - 1"]
  show ?thesis by blast
qed

text \<open>
  C4. Validation against the note-value width rejects every integer that requires 253
  bits or more, with the invalid-input error and with no accepted value at all, so
  nothing is truncated; it accepts every integer that requires 252 bits or fewer, and
  returns it unchanged. The accepted integers are those below \<open>2 ^ 252\<close>.
\<close>

theorem note_value_width_validation:
  "(253 \<le> bit_length v \<longrightarrow>
      validate_note_value v = Inl InvalidInput \<and> (\<forall>x. validate_note_value v \<noteq> Inr x))
   \<and> (bit_length u \<le> 252 \<longrightarrow> validate_note_value u = Inr u)
   \<and> validate_note_value u = (if u < 2 ^ 252 then Inr u else Inl InvalidInput)"
  by (simp add: validate_note_value_def validate_width_def NOTE_VALUE_BIT_LENGTH_unat
      bit_length_le_iff bit_length_ge_253)

theorem note_value_width_validation_witness:
  "253 \<le> bit_length (2 ^ 252)
   \<and> validate_note_value (2 ^ 252) = Inl InvalidInput
   \<and> bit_length (2 ^ 252 - 1) \<le> 252
   \<and> validate_note_value (2 ^ 252 - 1) = Inr (2 ^ 252 - 1)"
proof -
  have h1: "253 \<le> bit_length (2 ^ 252)"
    by (simp add: bit_length_ge_253)
  have h2: "bit_length (2 ^ 252 - 1) \<le> 252"
    by (simp add: bit_length_le_iff)
  from h1 h2 note_value_width_validation [of "2 ^ 252" "2 ^ 252 - 1"] show ?thesis
    by blast
qed

text \<open>
  C5. The bridge address is 160 bits wide, the count of output notes 2 bits, the input
  asset id 32 bits, the first output asset id 32 bits and the second output asset id
  26 bits; the two output asset ids differ in width.
\<close>

theorem defi_bridge_field_widths:
  "DEFI_BRIDGE_ADDRESS_BIT_LENGTH = 160
   \<and> DEFI_BRIDGE_NUM_OUTPUT_NOTES_LEN = 2
   \<and> DEFI_BRIDGE_INPUT_ASSET_ID_LEN = 32
   \<and> DEFI_BRIDGE_OUTPUT_A_ASSET_ID_LEN = 32
   \<and> DEFI_BRIDGE_OUTPUT_B_ASSET_ID_LEN = 26
   \<and> DEFI_BRIDGE_OUTPUT_A_ASSET_ID_LEN \<noteq> DEFI_BRIDGE_OUTPUT_B_ASSET_ID_LEN
   \<and> unat DEFI_BRIDGE_OUTPUT_A_ASSET_ID_LEN - unat DEFI_BRIDGE_OUTPUT_B_ASSET_ID_LEN = 6"
  by (simp add: DEFI_BRIDGE_ADDRESS_BIT_LENGTH_def DEFI_BRIDGE_NUM_OUTPUT_NOTES_LEN_def
      DEFI_BRIDGE_INPUT_ASSET_ID_LEN_def DEFI_BRIDGE_OUTPUT_A_ASSET_ID_LEN_def
      DEFI_BRIDGE_OUTPUT_B_ASSET_ID_LEN_def)

text \<open>
  C6. The packed width of a DeFi bridge record is the sum of the five widths, computed
  in 32-bit arithmetic without wrapping: 160 + 2 + 32 + 32 + 26 = 252. The record with
  every field at its maximum encodes to \<open>2 ^ 252 - 1\<close>, every in-range record encodes
  to an integer of at most 252 bits, and such an integer lies below every modulus of
  bit-length 253 or more.
\<close>

theorem defi_bridge_packed_width:
  "DEFI_BRIDGE_ADDRESS_BIT_LENGTH + DEFI_BRIDGE_NUM_OUTPUT_NOTES_LEN
     + DEFI_BRIDGE_INPUT_ASSET_ID_LEN + DEFI_BRIDGE_OUTPUT_A_ASSET_ID_LEN
     + DEFI_BRIDGE_OUTPUT_B_ASSET_ID_LEN = 252
   \<and> packed_width DEFI_BRIDGE_LAYOUT
       = unat (DEFI_BRIDGE_ADDRESS_BIT_LENGTH + DEFI_BRIDGE_NUM_OUTPUT_NOTES_LEN
           + DEFI_BRIDGE_INPUT_ASSET_ID_LEN + DEFI_BRIDGE_OUTPUT_A_ASSET_ID_LEN
           + DEFI_BRIDGE_OUTPUT_B_ASSET_ID_LEN)
   \<and> packed_width DEFI_BRIDGE_LAYOUT = 160 + 2 + 32 + 32 + 26
   \<and> packed_width DEFI_BRIDGE_LAYOUT = 252
   \<and> encode \<lparr>bridge_address = 2 ^ 160 - 1, num_output_notes = 3,
              input_asset_id = 2 ^ 32 - 1, output_asset_id_a = 2 ^ 32 - 1,
              output_asset_id_b = 2 ^ 26 - 1\<rparr> = 2 ^ 252 - 1
   \<and> (in_range b \<longrightarrow> bit_length (encode b) \<le> packed_width DEFI_BRIDGE_LAYOUT)
   \<and> (in_range b \<longrightarrow> 253 \<le> bit_length p \<longrightarrow> encode b < p)"
proof -
  have total: "DEFI_BRIDGE_ADDRESS_BIT_LENGTH + DEFI_BRIDGE_NUM_OUTPUT_NOTES_LEN
     + DEFI_BRIDGE_INPUT_ASSET_ID_LEN + DEFI_BRIDGE_OUTPUT_A_ASSET_ID_LEN
     + DEFI_BRIDGE_OUTPUT_B_ASSET_ID_LEN = 252"
    by (simp add: DEFI_BRIDGE_ADDRESS_BIT_LENGTH_def DEFI_BRIDGE_NUM_OUTPUT_NOTES_LEN_def
        DEFI_BRIDGE_INPUT_ASSET_ID_LEN_def DEFI_BRIDGE_OUTPUT_A_ASSET_ID_LEN_def
        DEFI_BRIDGE_OUTPUT_B_ASSET_ID_LEN_def)
  have width: "packed_width DEFI_BRIDGE_LAYOUT = 252"
    by (simp add: packed_width_def DEFI_BRIDGE_LAYOUT_eval)
  have full: "encode \<lparr>bridge_address = 2 ^ 160 - 1, num_output_notes = 3,
              input_asset_id = 2 ^ 32 - 1, output_asset_id_a = 2 ^ 32 - 1,
              output_asset_id_b = 2 ^ 26 - 1\<rparr> = 2 ^ 252 - 1"
    by (simp add: encode_def DEFI_BRIDGE_LAYOUT_eval bridge_fields_def)
  have bits: "bit_length (encode b) \<le> packed_width DEFI_BRIDGE_LAYOUT" if "in_range b"
    using encode_bound [OF that] by (simp only: bit_length_le_iff)
  have fits: "encode b < p" if b: "in_range b" and p: "253 \<le> bit_length p"
  proof -
    from encode_bound [OF b] have "encode b < 2 ^ 252"
      by (simp only: width)
    also from p have "2 ^ 252 \<le> p"
      by (simp only: bit_length_ge_253)
    finally show ?thesis .
  qed
  have sum: "packed_width DEFI_BRIDGE_LAYOUT
       = unat (DEFI_BRIDGE_ADDRESS_BIT_LENGTH + DEFI_BRIDGE_NUM_OUTPUT_NOTES_LEN
           + DEFI_BRIDGE_INPUT_ASSET_ID_LEN + DEFI_BRIDGE_OUTPUT_A_ASSET_ID_LEN
           + DEFI_BRIDGE_OUTPUT_B_ASSET_ID_LEN)"
    by (simp add: total width)
  have lit: "packed_width DEFI_BRIDGE_LAYOUT = 160 + 2 + 32 + 32 + 26"
    by (simp add: width)
  from total sum lit width full bits fits show ?thesis
    by blast
qed

theorem defi_bridge_packed_width_witness:
  "in_range \<lparr>bridge_address = 2 ^ 160 - 1, num_output_notes = 3,
             input_asset_id = 2 ^ 32 - 1, output_asset_id_a = 2 ^ 32 - 1,
             output_asset_id_b = 2 ^ 26 - 1\<rparr>
   \<and> 253 \<le> bit_length
       21888242871839275222246405745257275088548364400416034343698204186575808495617
   \<and> bit_length (encode \<lparr>bridge_address = 2 ^ 160 - 1, num_output_notes = 3,
             input_asset_id = 2 ^ 32 - 1, output_asset_id_a = 2 ^ 32 - 1,
             output_asset_id_b = 2 ^ 26 - 1\<rparr>) \<le> packed_width DEFI_BRIDGE_LAYOUT
   \<and> encode \<lparr>bridge_address = 2 ^ 160 - 1, num_output_notes = 3,
             input_asset_id = 2 ^ 32 - 1, output_asset_id_a = 2 ^ 32 - 1,
             output_asset_id_b = 2 ^ 26 - 1\<rparr>
       < 21888242871839275222246405745257275088548364400416034343698204186575808495617"
proof -
  have h1: "in_range \<lparr>bridge_address = 2 ^ 160 - 1, num_output_notes = 3,
             input_asset_id = 2 ^ 32 - 1, output_asset_id_a = 2 ^ 32 - 1,
             output_asset_id_b = 2 ^ 26 - 1\<rparr>"
    by (simp add: in_range_def DEFI_BRIDGE_ADDRESS_BIT_LENGTH_def
        DEFI_BRIDGE_NUM_OUTPUT_NOTES_LEN_def DEFI_BRIDGE_INPUT_ASSET_ID_LEN_def
        DEFI_BRIDGE_OUTPUT_A_ASSET_ID_LEN_def DEFI_BRIDGE_OUTPUT_B_ASSET_ID_LEN_def)
  have h2: "253 \<le> bit_length
       21888242871839275222246405745257275088548364400416034343698204186575808495617"
    by (simp add: bit_length_ge_253)
  from h1 h2 defi_bridge_packed_width
    [of "\<lparr>bridge_address = 2 ^ 160 - 1, num_output_notes = 3,
             input_asset_id = 2 ^ 32 - 1, output_asset_id_a = 2 ^ 32 - 1,
             output_asset_id_b = 2 ^ 26 - 1\<rparr>"
        21888242871839275222246405745257275088548364400416034343698204186575808495617]
  show ?thesis by blast
qed

text \<open>
  C7. Decoding the encoding of a bridge record whose five fields are within their
  widths returns the record.
\<close>

theorem defi_bridge_round_trip: "in_range b \<Longrightarrow> decode (encode b) = Some b"
  by (simp add: decode_def unpack_encode bridge_fields_def)

theorem defi_bridge_round_trip_witness:
  "in_range \<lparr>bridge_address = 2 ^ 160 - 1, num_output_notes = 2, input_asset_id = 1,
             output_asset_id_a = 2 ^ 32 - 1, output_asset_id_b = 0\<rparr>
   \<and> decode (encode \<lparr>bridge_address = 2 ^ 160 - 1, num_output_notes = 2, input_asset_id = 1,
                     output_asset_id_a = 2 ^ 32 - 1, output_asset_id_b = 0\<rparr>)
     = Some \<lparr>bridge_address = 2 ^ 160 - 1, num_output_notes = 2, input_asset_id = 1,
             output_asset_id_a = 2 ^ 32 - 1, output_asset_id_b = 0\<rparr>"
proof -
  have h: "in_range \<lparr>bridge_address = 2 ^ 160 - 1, num_output_notes = 2, input_asset_id = 1,
             output_asset_id_a = 2 ^ 32 - 1, output_asset_id_b = 0\<rparr>"
    by (simp add: in_range_def DEFI_BRIDGE_ADDRESS_BIT_LENGTH_def
        DEFI_BRIDGE_NUM_OUTPUT_NOTES_LEN_def DEFI_BRIDGE_INPUT_ASSET_ID_LEN_def
        DEFI_BRIDGE_OUTPUT_A_ASSET_ID_LEN_def DEFI_BRIDGE_OUTPUT_B_ASSET_ID_LEN_def)
  from h defi_bridge_round_trip [OF h] show ?thesis by (rule conjI)
qed

end
